theory Spec2Isabelle
  imports Complex_Main
begin

section \<open>Python values, errors and tensors\<close>

text \<open>
  The exceptions the modelled code can raise. \<open>KeyError\<close> is \<open>dict.pop\<close> on a missing
  key, \<open>ValueError\<close> is the one of \<open>BenetechModule._init_model\<close>, \<open>RuntimeError\<close> is
  \<open>torch.stack\<close> on an empty or ragged list, \<open>TypeError\<close> is \<open>len\<close> of a 0-d tensor.
\<close>

datatype error =
    KeyError string
  | ValueError string
  | RuntimeError string
  | TypeError string

text \<open>
  A tensor is its shape and its elements in row-major order. The element type \<open>'f\<close>
  stands for the floating-point numbers of the patch tensors; no definition below
  computes with them.
\<close>

datatype 'f tensor = Tensor (shape: "nat list") (elems: "'f list")

text \<open>
  \<open>torch.stack(tensors)\<close> with the default \<open>dim=0\<close>: raises on an empty list and on
  tensors of different sizes, otherwise adds a new leading dimension.
\<close>

fun torch_stack :: "'f tensor list \<Rightarrow> error + 'f tensor" where
  "torch_stack [] = Inl (RuntimeError ''stack expects a non-empty TensorList'')"
| "torch_stack (t # ts) =
     (if list_all (\<lambda>u. shape u = shape t) ts
      then Inr (Tensor (length (t # ts) # shape t) (concat (map elems (t # ts))))
      else Inl (RuntimeError ''stack expects each tensor to be equal size''))"

text \<open>
  The values a batch dictionary holds: a float tensor, the token-id matrix of the
  tokenizer (one row per text), or the list of raw texts.
\<close>

datatype 'f val =
    TensorV "'f tensor"
  | InputIds "nat list list"
  | TextList "string list"

type_synonym 'f dict = "string \<rightharpoonup> 'f val"

text \<open>\<open>len(x)\<close>: the leading dimension of a tensor (a 0-d tensor raises), the length of a list.\<close>

fun py_len :: "'f val \<Rightarrow> error + nat" where
  "py_len (TensorV t) =
     (case shape t of
        [] \<Rightarrow> Inl (TypeError ''len() of a 0-d tensor'')
      | n # _ \<Rightarrow> Inr n)"
| "py_len (InputIds rows) = Inr (length rows)"
| "py_len (TextList ts) = Inr (length ts)"


section \<open>The text processor\<close>

text \<open>
  The processor is the pretrained tokenizer of the \<open>transformers\<close> library, loaded by
  \<open>AutoProcessor.from_pretrained\<close>. Its vocabulary is a parameter: \<open>tokenize\<close> maps a
  text to its token ids with the special tokens added, \<open>batch_decode\<close> maps generated
  ids back to texts. What the collator asks of it is the library's batch contract,
  written out here. \<open>truncation=True\<close> with \<open>max_length\<close>: a sequence longer than
  \<open>max_length\<close> keeps its first \<open>max_length - 1\<close> ids and the end-of-sequence id is
  appended again; a \<open>max_length\<close> of 0 counts as no limit and nothing is truncated.
  \<open>padding="longest"\<close>: \<open>pad_token_id\<close> is appended to each sequence up to the
  longest sequence of the batch.
\<close>

record processor =
  tokenize :: "string \<Rightarrow> nat list"
  batch_decode :: "nat list list \<Rightarrow> string list"
  eos_token_id :: nat
  pad_token_id :: nat

definition truncate_ids :: "nat \<Rightarrow> nat \<Rightarrow> nat list \<Rightarrow> nat list" where
  "truncate_ids max_length eos ids =
     (if max_length = 0 \<or> length ids \<le> max_length then ids
      else take (max_length - 1) ids @ [eos])"

definition longest :: "nat list list \<Rightarrow> nat" where
  "longest seqs = foldr (\<lambda>s m. max (length s) m) seqs 0"

definition pad_ids :: "nat \<Rightarrow> nat \<Rightarrow> nat list \<Rightarrow> nat list" where
  "pad_ids pad n ids = ids @ replicate (n - length ids) pad"

definition pad_longest :: "nat \<Rightarrow> nat list list \<Rightarrow> nat list list" where
  "pad_longest pad seqs = map (pad_ids pad (longest seqs)) seqs"

text \<open>
  \<open>processor(text=texts, padding="longest", truncation=True, return_tensors="pt",
  add_special_tokens=True, max_length=max_length).input_ids\<close>
\<close>

definition processor_text :: "processor \<Rightarrow> nat \<Rightarrow> string list \<Rightarrow> nat list list" where
  "processor_text proc max_length texts =
     pad_longest (pad_token_id proc)
       (map (\<lambda>t. truncate_ids max_length (eos_token_id proc) (tokenize proc t)) texts)"


section \<open>The image-text dataset adapter\<close>

text \<open>
  A sample of the raw dataset: \<open>item["image"]\<close> and \<open>item["text"]\<close>. The type of
  images is a parameter.
\<close>

record 'img sample =
  sample_image :: 'img
  sample_text :: string

text \<open>
  What the processor returns for one image: the two tensors that the adapter and the
  collator read. The image processor itself is a parameter, a function from the
  image and \<open>max_patches\<close> to this encoding.
\<close>

record 'f image_encoding =
  enc_flattened_patches :: "'f tensor"
  enc_attention_mask :: "'f tensor"

text \<open>
  The library's contract for that encoding, with one image and \<open>return_tensors="pt"\<close>:
  the patches have the shape (1, \<open>max_patches\<close>, depth) and the mask, which the
  library computes from the patches by reducing their last axis, has the shape
  (1, \<open>max_patches\<close>).
\<close>

definition image_encoding_ok :: "'f image_encoding \<Rightarrow> nat \<Rightarrow> bool" where
  "image_encoding_ok enc max_patches =
     (case shape (enc_flattened_patches enc) of
        [b, p, d] \<Rightarrow> b = 1 \<and> p = max_patches \<and> shape (enc_attention_mask enc) = [1, max_patches]
      | _ \<Rightarrow> False)"

text \<open>\<open>tensor.squeeze()\<close>: every dimension of size 1 is dropped, the elements stay.\<close>

definition squeeze :: "'f tensor \<Rightarrow> 'f tensor" where
  "squeeze t = Tensor (filter (\<lambda>n. n \<noteq> 1) (shape t)) (elems t)"

text \<open>
  An encoded sample is what \<open>ImageCaptioningDataset.__getitem__\<close> returns: the
  squeezed image encoding and the text of the item (the key \<open>"text"\<close>, here the
  field \<open>item_text\<close>).
\<close>

record 'f encoded =
  flattened_patches :: "'f tensor"
  attention_mask :: "'f tensor"
  item_text :: string

text \<open>
  \<open>__getitem__\<close>, from the item \<open>self.dataset[idx]\<close> on: the processor encodes the
  image, every tensor of the encoding is squeezed, and the text is attached.
\<close>

definition getitem :: "('img \<Rightarrow> nat \<Rightarrow> 'f image_encoding) \<Rightarrow> nat \<Rightarrow> 'img sample \<Rightarrow> 'f encoded" where
  "getitem image_processor max_patches item =
     (let encoding = image_processor (sample_image item) max_patches
      in \<lparr> flattened_patches = squeeze (enc_flattened_patches encoding),
           attention_mask = squeeze (enc_attention_mask encoding),
           item_text = sample_text item \<rparr>)"


section \<open>The batch collator\<close>

text \<open>
  \<open>BenetechDataModule.collator\<close>. The texts are tokenized first, the two lists of
  tensors are filled by the loop and then stacked, \<open>flattened_patches\<close> before
  \<open>attention_mask\<close>; an exception of either stack leaves no batch.
\<close>

definition collator :: "processor \<Rightarrow> nat \<Rightarrow> 'f encoded list \<Rightarrow> error + 'f dict" where
  "collator proc max_length batch =
     (let texts = map item_text batch;
          input_ids = processor_text proc max_length texts;
          patches = map flattened_patches batch;
          masks = map attention_mask batch
      in case torch_stack patches of
           Inl e \<Rightarrow> Inl e
         | Inr fp \<Rightarrow>
             (case torch_stack masks of
                Inl e \<Rightarrow> Inl e
              | Inr am \<Rightarrow>
                  Inr [''labels'' \<mapsto> InputIds input_ids,
                       ''texts'' \<mapsto> TextList texts,
                       ''flattened_patches'' \<mapsto> TensorV fp,
                       ''attention_mask'' \<mapsto> TensorV am]))"


section \<open>The run configuration and the command line\<close>

text \<open>
  The module-level \<open>config\<close> of \<open>main.py\<close>, a \<open>SimpleNamespace\<close>. Python integers
  are \<open>int\<close>; \<open>max_length\<close> is only ever handed on as a token count and is a
  \<open>nat\<close>; the learning rate \<open>1e-5\<close> is the real number it denotes.
\<close>

record config =
  data_dir :: string
  model_save_dir :: string
  model_path :: string
  processor_path :: string
  project :: string
  save_model :: bool
  max_patches :: int
  max_length :: nat
  batch_size :: int
  epochs :: int
  learning_rate :: real
  verbose :: int
  num_workers :: int
  seed :: int
  accelerator :: string
  fast_dev_run :: bool
  overfit_batches :: int
  devices :: int
  precision :: int
  log_every_n_steps :: int
  accumulate_grad_batches :: int

definition default_config :: config where
  "default_config =
     \<lparr> data_dir = ''/data/bartley/gpu_test/bartley-benetech-resized/'',
       model_save_dir = ''/data/bartley/gpu_test/models/'',
       model_path = ''google/deplot'',
       processor_path = ''google/deplot'',
       project = ''Benetech'',
       save_model = True,
       max_patches = 1024,
       max_length = 512,
       batch_size = 3,
       epochs = 1,
       learning_rate = 1 / 100000,
       verbose = 2,
       num_workers = 4,
       seed = 0,
       accelerator = ''gpu'',
       fast_dev_run = False,
       overfit_batches = 0,
       devices = 1,
       precision = 32,
       log_every_n_steps = 10,
       accumulate_grad_batches = 1 \<rparr>"

text \<open>
  What the user wrote on the command line, flag by flag: \<open>None\<close> (for the
  \<open>store_true\<close> flag, \<open>False\<close>) is a flag left unset, \<open>Some v\<close> a flag given with
  the integer \<open>v\<close> that \<open>type=int\<close> read.
\<close>

record cli =
  cli_fast_dev_run :: bool
  cli_seed :: "int option"
  cli_batch_size :: "int option"
  cli_accumulate_grad_batches :: "int option"
  cli_max_patches :: "int option"

text \<open>The \<open>Namespace\<close> that \<open>parser.parse_args()\<close> returns.\<close>

record args =
  args_fast_dev_run :: bool
  args_seed :: int
  args_batch_size :: int
  args_accumulate_grad_batches :: int
  args_max_patches :: int

text \<open>
  The five \<open>add_argument\<close> calls of \<open>parse_args\<close> followed by \<open>parser.parse_args()\<close>:
  each flag with the \<open>default=\<close> expression the source gives it, read from the
  configuration as it is before the update. A \<open>store_true\<close> flag defaults to \<open>False\<close>.
\<close>

definition argparse_namespace :: "config \<Rightarrow> cli \<Rightarrow> args" where
  "argparse_namespace cfg c =
     \<lparr> args_fast_dev_run = cli_fast_dev_run c,
       args_seed = (case cli_seed c of None \<Rightarrow> seed cfg | Some v \<Rightarrow> v),
       args_batch_size = (case cli_batch_size c of None \<Rightarrow> batch_size cfg | Some v \<Rightarrow> v),
       args_accumulate_grad_batches =
         (case cli_accumulate_grad_batches c of
            None \<Rightarrow> accumulate_grad_batches cfg
          | Some v \<Rightarrow> v),
       args_max_patches = (case cli_max_patches c of None \<Rightarrow> batch_size cfg | Some v \<Rightarrow> v) \<rparr>"

text \<open>\<open>parse_args\<close>: every key of the namespace is written into the configuration.\<close>

definition parse_args :: "config \<Rightarrow> cli \<Rightarrow> config" where
  "parse_args cfg c =
     (let a = argparse_namespace cfg c
      in cfg\<lparr> fast_dev_run := args_fast_dev_run a,
              seed := args_seed a,
              batch_size := args_batch_size a,
              accumulate_grad_batches := args_accumulate_grad_batches a,
              max_patches := args_max_patches a \<rparr>)"

definition no_flags :: cli where
  "no_flags =
     \<lparr> cli_fast_dev_run = False, cli_seed = None, cli_batch_size = None,
       cli_accumulate_grad_batches = None, cli_max_patches = None \<rparr>"


section \<open>The training and evaluation module\<close>

text \<open>\<open>self.hparams\<close> of \<open>BenetechModule\<close>; \<open>run_name\<close> is \<open>None\<close> when there is no logger.\<close>

record hparams =
  hp_learning_rate :: real
  hp_max_length :: nat
  hp_model_path :: string
  hp_model_save_dir :: string
  hp_run_name :: "string option"
  hp_save_model :: bool

text \<open>The keyword arguments of one \<open>self.model.generate\<close> call.\<close>

record 'f generate_kwargs =
  gen_flattened_patches :: "'f val"
  gen_attention_mask :: "'f val"
  max_new_tokens :: nat
  early_stopping :: bool
  use_cache :: bool
  gen_eos_token_id :: nat
  gen_pad_token_id :: nat

text \<open>
  The pretrained network is a parameter: \<open>forward_loss\<close> is \<open>outputs.loss\<close> of the
  forward pass on (patches, mask, labels), \<open>generate\<close> the ids it generates for the
  given keyword arguments, \<open>is_decoder\<close> the flag \<open>config.text_config.is_decoder\<close>.
\<close>

record 'f model =
  forward_loss :: "'f val \<Rightarrow> 'f val \<Rightarrow> 'f val \<Rightarrow> 'f"
  generate :: "'f generate_kwargs \<Rightarrow> nat list list"
  is_decoder :: bool

text \<open>
  \<open>BenetechMetric\<close> is imported from \<open>benetech_decoder.metrics\<close>; its accumulator is
  the type \<open>'m\<close> and its two operations are parameters: calling the metric on
  (ground truths, predictions), and \<open>compute()\<close>.
\<close>

record ('f, 'm) benetech_metric =
  metric_call :: "'m \<Rightarrow> 'f val \<Rightarrow> string list \<Rightarrow> 'm"
  metric_compute :: "'m \<Rightarrow> 'f"

text \<open>One \<open>self.log(name, value, on_epoch=..., batch_size=...)\<close> call.\<close>

record 'f log_entry =
  log_name :: string
  log_value :: 'f
  log_on_epoch :: "bool option"
  log_batch_size :: nat

text \<open>
  The module object: its attributes, and the effects it has had on its collaborators
  (the values logged, the generation calls made, the paths saved to), oldest first.
\<close>

record ('f, 'm) module =
  hparams :: hparams
  model :: "'f model"
  processor :: processor
  validation_step_outputs :: "'f val list"
  metrics :: 'm
  logged :: "'f log_entry list"
  generate_calls :: "'f generate_kwargs list"
  saved_pretrained :: "string list"

text \<open>
  \<open>_init_model\<close>: \<open>pretrained\<close> is what \<open>from_pretrained("google/deplot", is_vqa=False)\<close>
  returns. The message of the error is the f-string of the source.
\<close>

definition init_model :: "hparams \<Rightarrow> 'f model \<Rightarrow> error + 'f model" where
  "init_model hp pretrained =
     (if hp_model_path hp = ''google/deplot''
      then Inr (pretrained\<lparr>is_decoder := True\<rparr>)
      else Inl (ValueError (hp_model_path hp @ '' is not a valid model'')))"

text \<open>
  \<open>BenetechModule.__init__\<close>: the model first, then the processor, the empty list
  of validation outputs and the metric (\<open>fresh\<close> is a new \<open>BenetechMetric()\<close>).
\<close>

definition BenetechModule_init ::
  "hparams \<Rightarrow> processor \<Rightarrow> 'f model \<Rightarrow> 'm \<Rightarrow> error + ('f, 'm) module" where
  "BenetechModule_init hp proc pretrained fresh =
     (case init_model hp pretrained of
        Inl e \<Rightarrow> Inl e
      | Inr mdl \<Rightarrow>
          Inr \<lparr> hparams = hp, model = mdl, processor = proc,
                validation_step_outputs = [], metrics = fresh,
                logged = [], generate_calls = [], saved_pretrained = [] \<rparr>)"

subsection \<open>Steps as actions on the batch and the module\<close>

text \<open>
  A step receives the batch dictionary by reference and mutates it and the module.
  An action takes both and returns both as they are afterwards, with the value
  returned or the exception raised; what was mutated before a raise stays mutated.
\<close>

type_synonym ('a, 'f, 'm) action =
  "'f dict \<times> ('f, 'm) module \<Rightarrow> (error + 'a) \<times> 'f dict \<times> ('f, 'm) module"

definition return_val :: "'a \<Rightarrow> ('a, 'f, 'm) action" where
  "return_val x = (\<lambda>s. (Inr x, s))"

definition raise :: "error \<Rightarrow> ('a, 'f, 'm) action" where
  "raise e = (\<lambda>s. (Inl e, s))"

definition and_then :: "('a, 'f, 'm) action \<Rightarrow> ('a \<Rightarrow> ('b, 'f, 'm) action) \<Rightarrow> ('b, 'f, 'm) action" where
  "and_then act k = (\<lambda>s. case act s of (Inl e, s') \<Rightarrow> (Inl e, s') | (Inr x, s') \<Rightarrow> k x s')"

text \<open>\<open>batch.pop(key)\<close>\<close>

definition dict_pop :: "string \<Rightarrow> ('f val, 'f, 'm) action" where
  "dict_pop key =
     (\<lambda>(d, m). case d key of
        None \<Rightarrow> (Inl (KeyError key), d, m)
      | Some v \<Rightarrow> (Inr v, d(key := None), m))"

text \<open>\<open>len(x)\<close> as an action\<close>

definition len_of :: "'f val \<Rightarrow> (nat, 'f, 'm) action" where
  "len_of v = (case py_len v of Inl e \<Rightarrow> raise e | Inr n \<Rightarrow> return_val n)"

text \<open>\<open>self.log\<close>\<close>

definition self_log :: "string \<Rightarrow> 'f \<Rightarrow> bool option \<Rightarrow> nat \<Rightarrow> (unit, 'f, 'm) action" where
  "self_log name v on_epoch n =
     (\<lambda>(d, m). (Inr (),
        d,
        m\<lparr>logged := logged m @
             [\<lparr>log_name = name, log_value = v, log_on_epoch = on_epoch, log_batch_size = n\<rparr>]\<rparr>))"

text \<open>\<open>_log\<close>: the name is the f-string \<open>"{stage}_loss"\<close>.\<close>

definition log_loss :: "string \<Rightarrow> 'f \<Rightarrow> nat \<Rightarrow> (unit, 'f, 'm) action" where
  "log_loss stage loss n = self_log (stage @ ''_loss'') loss None n"

text \<open>\<open>self.model(flattened_patches=..., attention_mask=..., labels=...).loss\<close>\<close>

definition model_loss :: "'f val \<Rightarrow> 'f val \<Rightarrow> 'f val \<Rightarrow> ('f, 'f, 'm) action" where
  "model_loss fp am labels = (\<lambda>(d, m). (Inr (forward_loss (model m) fp am labels), d, m))"

text \<open>
  The keyword arguments of the \<open>self.model.generate\<close> call of the validation branch,
  as the source writes them.
\<close>

definition generate_kwargs_of :: "('f, 'm) module \<Rightarrow> 'f val \<Rightarrow> 'f val \<Rightarrow> 'f generate_kwargs" where
  "generate_kwargs_of m fp am =
     \<lparr> gen_flattened_patches = fp,
       gen_attention_mask = am,
       max_new_tokens = hp_max_length (hparams m),
       early_stopping = True,
       use_cache = True,
       gen_eos_token_id = eos_token_id (processor m),
       gen_pad_token_id = pad_token_id (processor m) \<rparr>"

text \<open>The call itself; it is recorded in \<open>generate_calls\<close>.\<close>

definition model_generate :: "'f val \<Rightarrow> 'f val \<Rightarrow> (nat list list, 'f, 'm) action" where
  "model_generate fp am =
     (\<lambda>(d, m).
        let kw = generate_kwargs_of m fp am
        in (Inr (generate (model m) kw), d, m\<lparr>generate_calls := generate_calls m @ [kw]\<rparr>))"

text \<open>\<open>self.processor.batch_decode(predictions, skip_special_tokens=True)\<close>\<close>

definition decode :: "nat list list \<Rightarrow> (string list, 'f, 'm) action" where
  "decode ids = (\<lambda>(d, m). (Inr (batch_decode (processor m) ids), d, m))"

text \<open>\<open>self.metrics["benetech"](ground_truths, predictions)\<close>\<close>

definition update_metric ::
  "('f, 'm) benetech_metric \<Rightarrow> 'f val \<Rightarrow> string list \<Rightarrow> (unit, 'f, 'm) action" where
  "update_metric bm gts preds =
     (\<lambda>(d, m). (Inr (), d, m\<lparr>metrics := metric_call bm (metrics m) gts preds\<rparr>))"

text \<open>\<open>self.metrics["benetech"].compute()\<close>\<close>

definition compute_metric :: "('f, 'm) benetech_metric \<Rightarrow> ('f, 'f, 'm) action" where
  "compute_metric bm = (\<lambda>(d, m). (Inr (metric_compute bm (metrics m)), d, m))"

text \<open>
  \<open>_shared_step\<close>. The value is \<open>Some loss\<close> where the source returns the loss and
  \<open>None\<close> where it falls off the end of the validation branch.
\<close>

definition shared_step :: "('f, 'm) benetech_metric \<Rightarrow> string \<Rightarrow> ('f option, 'f, 'm) action" where
  "shared_step bm stage =
     and_then (dict_pop ''labels'') (\<lambda>labels.
     and_then (dict_pop ''flattened_patches'') (\<lambda>fp.
     and_then (dict_pop ''attention_mask'') (\<lambda>am.
     and_then (model_loss fp am labels) (\<lambda>loss.
     and_then (len_of labels) (\<lambda>n.
     and_then (log_loss stage loss n) (\<lambda>_.
     if stage = ''valid'' then
       and_then (model_generate fp am) (\<lambda>predictions.
       and_then (decode predictions) (\<lambda>predictions.
       and_then (dict_pop ''texts'') (\<lambda>ground_truths.
       and_then (update_metric bm ground_truths predictions) (\<lambda>_.
       and_then (compute_metric bm) (\<lambda>score.
       and_then (len_of labels) (\<lambda>n'.
       and_then (self_log ''benetech_score'' score (Some True) n') (\<lambda>_.
       return_val None)))))))
     else return_val (Some loss)))))))"

text \<open>\<open>validation_step\<close> binds the result of the shared step to \<open>pred\<close> and returns nothing.\<close>

definition validation_step :: "('f, 'm) benetech_metric \<Rightarrow> ('f option, 'f, 'm) action" where
  "validation_step bm = and_then (shared_step bm ''valid'') (\<lambda>pred. return_val None)"

definition training_step :: "('f, 'm) benetech_metric \<Rightarrow> ('f option, 'f, 'm) action" where
  "training_step bm = shared_step bm ''train''"

text \<open>\<open>str.format\<close> of a value that is a string or \<open>None\<close>.\<close>

definition format_str :: "string option \<Rightarrow> string" where
  "format_str v = (case v of None \<Rightarrow> ''None'' | Some s \<Rightarrow> s)"

text \<open>The path \<open>'{}{}.pt'.format(model_save_dir, run_name)\<close>.\<close>

definition save_path :: "hparams \<Rightarrow> string" where
  "save_path hp = hp_model_save_dir hp @ format_str (hp_run_name hp) @ ''.pt''"

text \<open>\<open>on_train_end\<close>: \<open>save_pretrained\<close> is recorded by its path.\<close>

definition on_train_end :: "('f, 'm) module \<Rightarrow> ('f, 'm) module" where
  "on_train_end m =
     (if hp_save_model (hparams m) = True
      then m\<lparr>saved_pretrained := saved_pretrained m @ [save_path (hparams m)]\<rparr>
      else m)"

text \<open>\<open>on_validation_epoch_end\<close>: \<open>self.validation_step_outputs.clear()\<close>\<close>

definition on_validation_epoch_end :: "('f, 'm) module \<Rightarrow> ('f, 'm) module" where
  "on_validation_epoch_end m = m\<lparr>validation_step_outputs := []\<rparr>"

subsection \<open>Sequences of hook calls\<close>

text \<open>
  The trainer calls the module's hooks in some order, each step with the batch it
  took from a data loader. A step that raises leaves the module as it was at the
  raise.
\<close>

datatype 'f hook =
    TrainingStep "'f dict"
  | ValidationStep "'f dict"
  | OnValidationEpochEnd
  | OnTrainEnd

fun call_hook :: "('f, 'm) benetech_metric \<Rightarrow> ('f, 'm) module \<Rightarrow> 'f hook \<Rightarrow> ('f, 'm) module" where
  "call_hook bm m (TrainingStep b) = snd (snd (training_step bm (b, m)))"
| "call_hook bm m (ValidationStep b) = snd (snd (validation_step bm (b, m)))"
| "call_hook bm m OnValidationEpochEnd = on_validation_epoch_end m"
| "call_hook bm m OnTrainEnd = on_train_end m"

definition call_hooks :: "('f, 'm) benetech_metric \<Rightarrow> ('f, 'm) module \<Rightarrow> 'f hook list \<Rightarrow> ('f, 'm) module" where
  "call_hooks bm m hs = foldl (call_hook bm) m hs"


text \<open>
  An action keeps an attribute of the module when no run of it changes that
  attribute, whether the run returns or raises.
\<close>

definition keeps :: "(('f, 'm) module \<Rightarrow> 'x) \<Rightarrow> ('a, 'f, 'm) action \<Rightarrow> bool" where
  "keeps attr act = (\<forall>d m. attr (snd (snd (act (d, m)))) = attr m)"


section \<open>The data orchestrator and the training driver\<close>

text \<open>
  The calls into external libraries that load something, in the order they are made.
  \<open>LoadDataset dir split\<close> is \<open>load_dataset("imagefolder", data_dir=dir, split=split)\<close>,
  the only place where data is loaded.
\<close>

datatype event =
    SeedEverything int
  | ProcessorFromPretrained string
  | LoadLoggerAndCallbacks
  | ModelFromPretrained string
  | LoadDataset string string
  | TrainerFitLoop

fun is_data_loading :: "event \<Rightarrow> bool" where
  "is_data_loading (LoadDataset _ _) = True"
| "is_data_loading _ = False"

text \<open>
  \<open>BenetechDataModule\<close>: its hyperparameters, its processor and the two dataset
  attributes, which exist only once \<open>setup\<close> has assigned them. A dataset is
  represented by the directory and split it was loaded from.
\<close>

record data_module =
  dm_data_dir :: string
  dm_processor_path :: string
  dm_batch_size :: int
  dm_max_length :: nat
  dm_num_workers :: int
  dm_max_patches :: int
  dm_processor :: processor
  train_dataset :: "(string \<times> string) option"
  val_dataset :: "(string \<times> string) option"

text \<open>
  \<open>BenetechDataModule.__init__\<close>; \<open>proc\<close> is what
  \<open>AutoProcessor.from_pretrained(processor_path, is_vqa=False)\<close> returns.
\<close>

definition BenetechDataModule_init ::
  "string \<Rightarrow> string \<Rightarrow> int \<Rightarrow> nat \<Rightarrow> int \<Rightarrow> int \<Rightarrow> processor \<Rightarrow> data_module \<times> event list" where
  "BenetechDataModule_init dir ppath bs ml nw mp proc =
     (\<lparr> dm_data_dir = dir, dm_processor_path = ppath, dm_batch_size = bs,
        dm_max_length = ml, dm_num_workers = nw, dm_max_patches = mp,
        dm_processor = proc, train_dataset = None, val_dataset = None \<rparr>,
      [ProcessorFromPretrained ppath])"

text \<open>\<open>_dataset(train)\<close>\<close>

definition dataset_of :: "data_module \<Rightarrow> bool \<Rightarrow> (string \<times> string) \<times> event list" where
  "dataset_of dm train_split =
     (if train_split = True
      then ((dm_data_dir dm, ''train''), [LoadDataset (dm_data_dir dm) ''train''])
      else ((dm_data_dir dm, ''validation''), [LoadDataset (dm_data_dir dm) ''validation'']))"

text \<open>\<open>setup(stage)\<close>: two independent \<open>if\<close> statements.\<close>

definition setup_stage :: "string \<Rightarrow> data_module \<Rightarrow> data_module \<times> event list" where
  "setup_stage stage dm =
     (let (dm1, ev1) =
            (if stage = ''fit''
             then (let (tr, e1) = dataset_of dm True; (va, e2) = dataset_of dm False
                   in (dm\<lparr>train_dataset := Some tr, val_dataset := Some va\<rparr>, e1 @ e2))
             else (dm, []));
          (dm2, ev2) =
            (if stage = ''test''
             then (let (va, e) = dataset_of dm1 False in (dm1\<lparr>val_dataset := Some va\<rparr>, e))
             else (dm1, []))
      in (dm2, ev1 @ ev2))"

text \<open>The data module's \<open>collator\<close> method.\<close>

definition dm_collator :: "data_module \<Rightarrow> 'f encoded list \<Rightarrow> error + 'f dict" where
  "dm_collator dm = collator (dm_processor dm) (dm_max_length dm)"

text \<open>
  \<open>train(config)\<close>. \<open>train.py\<close> imports the two classes under the package name
  \<open>benetech_pl.modules\<close>; they are the classes \<open>BenetechDataModule\<close> and
  \<open>BenetechModule\<close> modelled above, whose constructors take exactly the keyword
  arguments that \<open>train\<close> passes. The collaborators are parameters: \<open>proc\<close> the processor that
  \<open>from_pretrained\<close> yields, \<open>logger\<close> the experiment name of the logger that
  \<open>load_logger_and_callbacks\<close> returns (\<open>None\<close> when it returns no logger),
  \<open>pretrained\<close> the pretrained network and \<open>fresh\<close> a new metric. Of
  \<open>trainer.fit(module, datamodule=data_module)\<close> the model keeps the trainer's call
  of \<open>data_module.setup("fit")\<close> and records the loop itself as one event. The result
  is the exception that ends the function, or \<open>()\<close> for its bare \<open>return\<close>, with the
  events up to there.
\<close>

definition train ::
  "config \<Rightarrow> processor \<Rightarrow> string option \<Rightarrow> 'f model \<Rightarrow> 'm \<Rightarrow> (error + unit) \<times> event list" where
  "train cfg proc logger pretrained fresh =
     (let ev0 = [SeedEverything (seed cfg)];
          (data_module, ev1) =
            BenetechDataModule_init (data_dir cfg) (processor_path cfg) (batch_size cfg)
              (max_length cfg) (num_workers cfg) (max_patches cfg) proc;
          ev2 = [LoadLoggerAndCallbacks];
          hp = \<lparr> hp_learning_rate = learning_rate cfg,
                 hp_max_length = max_length cfg,
                 hp_model_path = model_path cfg,
                 hp_model_save_dir = model_save_dir cfg,
                 hp_run_name = logger,
                 hp_save_model = save_model cfg \<rparr>
      in case BenetechModule_init hp (dm_processor data_module) pretrained fresh of
           Inl e \<Rightarrow> (Inl e, ev0 @ ev1 @ ev2)
         | Inr (module_obj :: ('f, 'm) module) \<Rightarrow>
             (let ev3 = [ModelFromPretrained ''google/deplot''];
                  (data_module', ev4) = setup_stage ''fit'' data_module
              in (Inr (), ev0 @ ev1 @ ev2 @ ev3 @ ev4 @ [TrainerFitLoop])))"


section \<open>Concrete inputs\<close>

text \<open>
  Small collaborators and inputs on which the definitions are evaluated below.
  The processor maps every character to the id 3 and ends each text with the id 1;
  an image is given by the elements of its patches and of its mask, which the image
  processor lays out with depth 2; the network has the constant loss 7 and generates
  two fixed rows; the metric counts the predictions it has seen.
\<close>

definition char_processor :: processor where
  "char_processor =
     \<lparr> tokenize = (\<lambda>t. replicate (length t) 3 @ [1]),
       batch_decode = map (\<lambda>ids. replicate (length ids) CHR ''x''),
       eos_token_id = 1,
       pad_token_id = 0 \<rparr>"

definition pair_image_processor :: "int list \<times> int list \<Rightarrow> nat \<Rightarrow> int image_encoding" where
  "pair_image_processor img mp =
     \<lparr> enc_flattened_patches = Tensor [1, mp, 2] (fst img),
       enc_attention_mask = Tensor [1, mp] (snd img) \<rparr>"

definition item_a :: "(int list \<times> int list) sample" where
  "item_a = \<lparr> sample_image = ([1, 2, 3, 4], [1, 1]), sample_text = ''ab'' \<rparr>"

definition item_b :: "(int list \<times> int list) sample" where
  "item_b = \<lparr> sample_image = ([5, 6, 0, 0], [1, 0]), sample_text = ''abcde'' \<rparr>"

definition demo_hparams :: hparams where
  "demo_hparams =
     \<lparr> hp_learning_rate = 1 / 100000, hp_max_length = 512,
       hp_model_path = ''google/deplot'', hp_model_save_dir = ''/models/'',
       hp_run_name = Some ''run-1'', hp_save_model = True \<rparr>"

definition demo_model :: "int model" where
  "demo_model =
     \<lparr> forward_loss = (\<lambda>fp am labels. 7),
       generate = (\<lambda>kw. [[0, 5, 1], [0, 1, 0]]),
       is_decoder = False \<rparr>"

definition demo_metric :: "(int, nat) benetech_metric" where
  "demo_metric = \<lparr> metric_call = (\<lambda>acc gts preds. acc + length preds), metric_compute = int \<rparr>"

definition demo_batch :: "int dict" where
  "demo_batch =
     [''labels'' \<mapsto> InputIds [[3, 3, 1, 0], [3, 3, 3, 1]],
      ''texts'' \<mapsto> TextList [''ab'', ''abcde''],
      ''flattened_patches'' \<mapsto> TensorV (Tensor [2, 2, 2] [1, 2, 3, 4, 5, 6, 0, 0]),
      ''attention_mask'' \<mapsto> TensorV (Tensor [2, 2] [1, 1, 1, 0])]"

definition demo_module :: "(int, nat) module" where
  "demo_module =
     \<lparr> hparams = demo_hparams, model = demo_model\<lparr>is_decoder := True\<rparr>,
       processor = char_processor, validation_step_outputs = [], metrics = 0,
       logged = [], generate_calls = [], saved_pretrained = [] \<rparr>"


section \<open>Properties of the collator\<close>

lemma length_pad_ids: "length (pad_ids pad n ids) = max n (length ids)"
  by (simp add: pad_ids_def)

lemma longest_Nil: "longest [] = 0"
  by (simp add: longest_def)

lemma longest_Cons: "longest (s # seqs) = max (length s) (longest seqs)"
  by (simp add: longest_def)

lemma longest_upper: "s \<in> set seqs \<Longrightarrow> length s \<le> longest seqs"
  by (induction seqs) (auto simp: longest_Cons longest_Nil)

lemma longest_Max: "seqs \<noteq> [] \<Longrightarrow> longest seqs = Max (length ` set seqs)"
proof (induction seqs)
  case Nil
  then show ?case by simp
next
  case (Cons s seqs)
  show ?case
  proof (cases "seqs = []")
    case True
    then show ?thesis by (simp add: longest_Cons longest_Nil)
  next
    case False
    with Cons.IH have "longest seqs = Max (length ` set seqs)" by simp
    with False show ?thesis by (simp add: longest_Cons)
  qed
qed

lemma length_truncate_ids:
  "length (truncate_ids n eos ids) = (if n = 0 then length ids else min (length ids) n)"
  by (auto simp: truncate_ids_def)

lemma longest_truncate:
  "longest (map (truncate_ids n eos) seqs) = (if n = 0 then longest seqs else min (longest seqs) n)"
  by (induction seqs) (auto simp: longest_Cons longest_Nil length_truncate_ids)

lemma pad_longest_row_length:
  "row \<in> set (pad_longest pad seqs) \<Longrightarrow> length row = longest seqs"
  by (auto simp: pad_longest_def length_pad_ids dest: longest_upper)

lemma length_pad_longest: "length (pad_longest pad seqs) = length seqs"
  by (simp add: pad_longest_def)

lemma processor_text_rows:
  assumes "texts \<noteq> []" and "row \<in> set (processor_text proc n texts)"
  shows "length row =
           (if n = 0 then Max ((\<lambda>t. length (tokenize proc t)) ` set texts)
            else min (Max ((\<lambda>t. length (tokenize proc t)) ` set texts)) n)"
proof -
  let ?seqs = "map (tokenize proc) texts"
  let ?eos = "eos_token_id proc"
  have "processor_text proc n texts =
      pad_longest (pad_token_id proc) (map (truncate_ids n ?eos) ?seqs)"
    by (simp add: processor_text_def comp_def)
  with assms(2) have "length row = longest (map (truncate_ids n ?eos) ?seqs)"
    by (simp add: pad_longest_row_length)
  also have "\<dots> = (if n = 0 then longest ?seqs else min (longest ?seqs) n)"
    by (rule longest_truncate)
  also from assms(1) have "longest ?seqs = Max (length ` set ?seqs)"
    by (simp add: longest_Max)
  also have "length ` set ?seqs = (\<lambda>t. length (tokenize proc t)) ` set texts"
    by (simp add: image_image)
  finally show ?thesis .
qed

lemma length_processor_text: "length (processor_text proc n texts) = length texts"
  by (simp add: processor_text_def length_pad_longest)

lemma torch_stack_same_shape:
  assumes "ts \<noteq> []" and "\<forall>t\<in>set ts. shape t = sh"
  shows "\<exists>r. torch_stack ts = Inr r \<and> shape r = length ts # sh"
proof (cases ts)
  case Nil
  with assms(1) show ?thesis by simp
next
  case (Cons t rest)
  with assms(2) have "list_all (\<lambda>u. shape u = shape t) rest" and "shape t = sh"
    by (auto simp: list_all_iff)
  with Cons show ?thesis by simp
qed

text \<open>
  The collator on any non-empty list of samples whose patch tensors share one shape
  and whose masks share one shape.
\<close>

lemma collator_stacks:
  assumes "batch \<noteq> []"
    and "\<forall>s\<in>set batch. shape (flattened_patches s) = psh"
    and "\<forall>s\<in>set batch. shape (attention_mask s) = msh"
  shows "\<exists>fp am.
           collator proc max_len batch =
             Inr [''labels'' \<mapsto> InputIds (processor_text proc max_len (map item_text batch)),
                  ''texts'' \<mapsto> TextList (map item_text batch),
                  ''flattened_patches'' \<mapsto> TensorV fp,
                  ''attention_mask'' \<mapsto> TensorV am] \<and>
           shape fp = length batch # psh \<and>
           shape am = length batch # msh"
proof -
  from assms(1,2) obtain fp where fp: "torch_stack (map flattened_patches batch) = Inr fp"
    "shape fp = length batch # psh"
    using torch_stack_same_shape [of "map flattened_patches batch" psh] by auto
  from assms(1,3) obtain am where am: "torch_stack (map attention_mask batch) = Inr am"
    "shape am = length batch # msh"
    using torch_stack_same_shape [of "map attention_mask batch" msh] by auto
  have "collator proc max_len batch =
      Inr [''labels'' \<mapsto> InputIds (processor_text proc max_len (map item_text batch)),
           ''texts'' \<mapsto> TextList (map item_text batch),
           ''flattened_patches'' \<mapsto> TensorV fp, ''attention_mask'' \<mapsto> TensorV am]"
    by (simp add: collator_def Let_def fp am)
  with fp(2) am(2) show ?thesis by blast
qed

text \<open>
  The mask of an encoded sample has a shape that depends on \<open>max_patches\<close> alone,
  and the sample carries the text of its item.
\<close>

lemma getitem_mask_shape:
  assumes "image_encoding_ok (image_processor (sample_image item) mp) mp"
  shows "shape (attention_mask (getitem image_processor mp item)) =
           filter (\<lambda>n. n \<noteq> 1) [1, mp]"
proof -
  from assms have "shape (enc_attention_mask (image_processor (sample_image item) mp)) = [1, mp]"
    by (auto simp: image_encoding_ok_def split: list.splits)
  then show ?thesis
    by (simp only: getitem_def Let_def squeeze_def encoded.simps tensor.sel)
qed

lemma getitem_text: "item_text (getitem image_processor mp item) = sample_text item"
  by (simp add: getitem_def Let_def)

text \<open>
  C1, as stated, caps the sequence length of the labels at \<open>max_length\<close> for every
  configured value. With \<open>max_length = 0\<close> the tokenizer does not truncate: the two
  encoded samples of \<open>item_a\<close> and \<open>item_b\<close>, whose patch tensors share the shape
  (2, 2), are collated into labels with rows of length 6, the length of the longest
  tokenized text, and not of length 0.
\<close>

theorem collator_max_length_zero_counterexample:
  "shape (flattened_patches (getitem pair_image_processor 2 item_a)) =
     shape (flattened_patches (getitem pair_image_processor 2 item_b)) \<and>
   length (tokenize char_processor (sample_text item_b)) = 6 \<and>
   collator char_processor 0 (map (getitem pair_image_processor 2) [item_a, item_b]) =
     Inr [''labels'' \<mapsto> InputIds [[3, 3, 1, 0, 0, 0], [3, 3, 3, 3, 3, 1]],
          ''texts'' \<mapsto> TextList [''ab'', ''abcde''],
          ''flattened_patches'' \<mapsto> TensorV (Tensor [2, 2, 2] [1, 2, 3, 4, 5, 6, 0, 0]),
          ''attention_mask'' \<mapsto> TensorV (Tensor [2, 2] [1, 1, 1, 0])] \<and>
   length [3, 3, 3, 3, 3, 1 :: nat] \<noteq> min 6 0"
  by (simp add: item_a_def item_b_def pair_image_processor_def getitem_def squeeze_def
      char_processor_def collator_def processor_text_def pad_longest_def longest_def
      pad_ids_def truncate_ids_def numeral_2_eq_2)

text \<open>
  C1, amended: for every non-empty list of N encoded samples (the results of
  \<open>__getitem__\<close> for one \<open>max_patches\<close>, the image processor keeping its contract)
  whose patch tensors share one shape, the collator returns a batch in which
  \<open>flattened_patches\<close> and \<open>attention_mask\<close> are stacks with leading dimension N,
  \<open>labels\<close> has N rows, and every row of \<open>labels\<close> has the length of the longest
  tokenized text of the batch, capped at \<open>max_length\<close> when \<open>max_length\<close> is
  positive; with \<open>max_length = 0\<close> it is the length of the longest tokenized text.
\<close>

theorem collator_batch_shapes:
  assumes "items \<noteq> []"
    and "\<forall>it\<in>set items.
           image_encoding_ok (image_processor (sample_image it) mp) mp"
    and "\<forall>it\<in>set items.
           shape (flattened_patches (getitem image_processor mp it)) = psh"
  shows "\<exists>fp am ids.
           collator proc max_len (map (getitem image_processor mp) items) =
             Inr [''labels'' \<mapsto> InputIds ids,
                  ''texts'' \<mapsto> TextList (map sample_text items),
                  ''flattened_patches'' \<mapsto> TensorV fp,
                  ''attention_mask'' \<mapsto> TensorV am] \<and>
           shape fp = length items # psh \<and>
           shape am = length items # filter (\<lambda>n. n \<noteq> 1) [1, mp] \<and>
           length ids = length items \<and>
           (\<forall>row\<in>set ids.
              length row =
                (if max_len = 0
                 then Max ((\<lambda>it. length (tokenize proc (sample_text it))) ` set items)
                 else min (Max ((\<lambda>it. length (tokenize proc (sample_text it))) ` set items))
                        max_len))"
proof -
  let ?batch = "map (getitem image_processor mp) items"
  let ?texts = "map sample_text items"
  let ?ids = "processor_text proc max_len ?texts"
  have texts: "map item_text ?batch = ?texts"
    by (simp add: getitem_text comp_def)
  from assms(1) have "?batch \<noteq> []" by simp
  moreover from assms(3) have "\<forall>s\<in>set ?batch. shape (flattened_patches s) = psh"
    by simp
  moreover from assms(2)
  have "\<forall>s\<in>set ?batch. shape (attention_mask s) = filter (\<lambda>n. n \<noteq> 1) [1, mp]"
    by (simp add: getitem_mask_shape del: filter.simps)
  ultimately obtain fp am where run:
    "collator proc max_len ?batch =
       Inr [''labels'' \<mapsto> InputIds (processor_text proc max_len (map item_text ?batch)),
            ''texts'' \<mapsto> TextList (map item_text ?batch),
            ''flattened_patches'' \<mapsto> TensorV fp, ''attention_mask'' \<mapsto> TensorV am]"
    and fp: "shape fp = length ?batch # psh"
    and am: "shape am = length ?batch # filter (\<lambda>n. n \<noteq> 1) [1, mp]"
    using collator_stacks [of ?batch psh "filter (\<lambda>n. n \<noteq> 1) [1, mp]" proc max_len]
    by blast
  have rows: "\<forall>row\<in>set ?ids.
      length row =
        (if max_len = 0
         then Max ((\<lambda>it. length (tokenize proc (sample_text it))) ` set items)
         else min (Max ((\<lambda>it. length (tokenize proc (sample_text it))) ` set items)) max_len)"
    using assms(1) processor_text_rows [of ?texts _ proc max_len]
    by (simp add: image_image)
  from run fp am rows show ?thesis
    unfolding texts
    by (intro exI [of _ fp] exI [of _ am] exI [of _ ?ids] conjI)
       (simp_all add: length_processor_text del: filter.simps)
qed

text \<open>
  The theorem at the encoded samples of two items with texts of 3 and 6 tokens,
  \<open>max_patches = 2\<close> and \<open>max_length = 4\<close>: the longer text is cut to three ids and
  the end-of-sequence id, the shorter is padded, and the labels have rows of length 4.
\<close>

theorem collator_batch_shapes_witness:
  "collator char_processor 4 (map (getitem pair_image_processor 2) [item_a, item_b]) =
     Inr [''labels'' \<mapsto> InputIds [[3, 3, 1, 0], [3, 3, 3, 1]],
          ''texts'' \<mapsto> TextList [''ab'', ''abcde''],
          ''flattened_patches'' \<mapsto> TensorV (Tensor [2, 2, 2] [1, 2, 3, 4, 5, 6, 0, 0]),
          ''attention_mask'' \<mapsto> TensorV (Tensor [2, 2] [1, 1, 1, 0])]"
  using collator_batch_shapes
    [of "[item_a, item_b]" pair_image_processor 2 "[2, 2]" char_processor 4]
  by (simp add: item_a_def item_b_def pair_image_processor_def getitem_def squeeze_def
      image_encoding_ok_def char_processor_def collator_def processor_text_def
      pad_longest_def longest_def pad_ids_def truncate_ids_def numeral_2_eq_2)

text \<open>
  C8: when the tokenized texts of a batch all have the same length, not above
  \<open>max_length\<close>, the processor returns each sequence as the tokenizer produced it:
  padding to the longest appends nothing, and padding the result again changes nothing.
\<close>

theorem pad_longest_equal_lengths:
  assumes "\<forall>t\<in>set texts. length (tokenize proc t) = n" and "n \<le> max_len"
  shows "processor_text proc max_len texts = map (tokenize proc) texts \<and>
         pad_longest (pad_token_id proc) (processor_text proc max_len texts) =
           processor_text proc max_len texts"
proof -
  let ?toks = "map (tokenize proc) texts"
  have same: "map (\<lambda>t. truncate_ids max_len (eos_token_id proc) (tokenize proc t)) texts = ?toks"
    using assms by (simp add: truncate_ids_def)
  have "longest ?toks \<le> n"
    using assms(1) by (induction texts) (auto simp: longest_Cons longest_Nil)
  with assms(1) have "\<forall>s\<in>set ?toks. pad_ids (pad_token_id proc) (longest ?toks) s = s"
    by (auto simp: pad_ids_def)
  then have unchanged: "pad_longest (pad_token_id proc) ?toks = ?toks"
    unfolding pad_longest_def by (simp add: map_idI)
  then have "processor_text proc max_len texts = ?toks"
    unfolding processor_text_def same .
  with unchanged show ?thesis by simp
qed

theorem pad_longest_equal_lengths_witness:
  "processor_text char_processor 4 [''ab'', ''cd''] = [[3, 3, 1], [3, 3, 1]] \<and>
   pad_longest 0 [[3, 3, 1], [3, 3, 1]] = [[3, 3, 1], [3, 3, 1]]"
  using pad_longest_equal_lengths [of "[''ab'', ''cd'']" char_processor 3 4]
  by (simp add: char_processor_def pad_longest_def longest_def pad_ids_def truncate_ids_def)


section \<open>Properties of the steps\<close>

text \<open>
  The shared step evaluated symbolically: on a batch with the three tensors, in a
  stage other than \<open>valid\<close>; in the stage \<open>valid\<close> with and without \<open>texts\<close>; and
  the batches on which it returns at all.
\<close>

lemmas action_defs =
  and_then_def return_val_def raise_def dict_pop_def len_of_def self_log_def log_loss_def
  model_loss_def model_generate_def decode_def update_metric_def compute_metric_def

lemma shared_step_train:
  assumes "d ''labels'' = Some labels" and "d ''flattened_patches'' = Some fp"
    and "d ''attention_mask'' = Some am" and "py_len labels = Inr n"
    and "stage \<noteq> ''valid''"
  shows "shared_step bm stage (d, m) =
     (Inr (Some (forward_loss (model m) fp am labels)),
      d(''labels'' := None, ''flattened_patches'' := None, ''attention_mask'' := None),
      m\<lparr>logged := logged m @
          [\<lparr>log_name = stage @ ''_loss'', log_value = forward_loss (model m) fp am labels,
            log_on_epoch = None, log_batch_size = n\<rparr>]\<rparr>)"
  using assms by (simp add: shared_step_def action_defs)

lemma shared_step_valid:
  assumes "d ''labels'' = Some labels" and "d ''flattened_patches'' = Some fp"
    and "d ''attention_mask'' = Some am" and "py_len labels = Inr n"
    and "d ''texts'' = Some gts"
  shows "shared_step bm ''valid'' (d, m) =
     (Inr None,
      d(''labels'' := None, ''flattened_patches'' := None, ''attention_mask'' := None,
        ''texts'' := None),
      (let kw = generate_kwargs_of m fp am;
           loss = forward_loss (model m) fp am labels;
           preds = batch_decode (processor m) (generate (model m) kw);
           acc = metric_call bm (metrics m) gts preds
       in m\<lparr>logged := logged m @
            [\<lparr>log_name = ''valid_loss'', log_value = loss, log_on_epoch = None, log_batch_size = n\<rparr>,
             \<lparr>log_name = ''benetech_score'', log_value = metric_compute bm acc,
              log_on_epoch = Some True, log_batch_size = n\<rparr>],
            generate_calls := generate_calls m @ [kw],
            metrics := acc\<rparr>))"
  using assms by (simp add: shared_step_def action_defs generate_kwargs_of_def Let_def)

lemma shared_step_valid_no_texts:
  assumes "d ''labels'' = Some labels" and "d ''flattened_patches'' = Some fp"
    and "d ''attention_mask'' = Some am" and "py_len labels = Inr n"
    and "d ''texts'' = None"
  shows "shared_step bm ''valid'' (d, m) =
     (Inl (KeyError ''texts''),
      d(''labels'' := None, ''flattened_patches'' := None, ''attention_mask'' := None),
      m\<lparr>logged := logged m @
            [\<lparr>log_name = ''valid_loss'', log_value = forward_loss (model m) fp am labels,
              log_on_epoch = None, log_batch_size = n\<rparr>],
         generate_calls := generate_calls m @ [generate_kwargs_of m fp am]\<rparr>)"
  using assms by (simp add: shared_step_def action_defs generate_kwargs_of_def Let_def)

lemma shared_step_returns_iff:
  "(\<exists>r. fst (shared_step bm stage (d, m)) = Inr r) \<longleftrightarrow>
     (\<exists>labels fp am n. d ''labels'' = Some labels \<and> d ''flattened_patches'' = Some fp \<and>
        d ''attention_mask'' = Some am \<and> py_len labels = Inr n \<and>
        (stage = ''valid'' \<longrightarrow> (\<exists>gts. d ''texts'' = Some gts)))"
  by (auto simp: shared_step_def action_defs Let_def split: option.splits sum.splits)

text \<open>
  C3: a training step on a batch that holds the labels, the patches and the mask
  returns the loss of the forward pass, and logs exactly one value: that loss under
  the name \<open>train_loss\<close>, with the batch size \<open>len(labels)\<close>.
\<close>

theorem training_step_returns_loss_and_logs:
  assumes "d ''labels'' = Some labels" and "d ''flattened_patches'' = Some fp"
    and "d ''attention_mask'' = Some am" and "py_len labels = Inr n"
  shows "\<exists>d'. training_step bm (d, m) =
           (Inr (Some (forward_loss (model m) fp am labels)), d',
            m\<lparr>logged := logged m @
                [\<lparr>log_name = ''train_loss'',
                  log_value = forward_loss (model m) fp am labels,
                  log_on_epoch = None,
                  log_batch_size = n\<rparr>]\<rparr>)"
  using shared_step_train [OF assms, of "''train''" bm m]
  by (simp add: training_step_def)

theorem training_step_returns_loss_and_logs_witness:
  "py_len (InputIds [[3, 3, 1, 0], [3, 3, 3, 1]]) = Inr 2 \<and>
   fst (training_step demo_metric (demo_batch, demo_module)) = Inr (Some 7) \<and>
   logged (snd (snd (training_step demo_metric (demo_batch, demo_module)))) =
     [\<lparr>log_name = ''train_loss'', log_value = 7, log_on_epoch = None, log_batch_size = 2\<rparr>]"
  using training_step_returns_loss_and_logs
    [of demo_batch "InputIds [[3, 3, 1, 0], [3, 3, 3, 1]]"
        "TensorV (Tensor [2, 2, 2] [1, 2, 3, 4, 5, 6, 0, 0])"
        "TensorV (Tensor [2, 2] [1, 1, 1, 0])" 2 demo_metric demo_module]
  by (auto simp: demo_batch_def demo_module_def demo_model_def)

text \<open>
  C6: on a batch holding all four fields, the validation step returns \<open>None\<close> and
  does its work as effects only: it logs \<open>valid_loss\<close>, calls \<open>generate\<close>, decodes
  the generated ids, feeds ground truths and predictions to the metric and logs the
  metric's value as \<open>benetech_score\<close>, and it empties the batch of the four fields.
  The training step on the same batch returns the loss, logs \<open>train_loss\<close> and does
  none of the rest.
\<close>

theorem validation_step_returns_nothing:
  assumes "d ''labels'' = Some labels" and "d ''flattened_patches'' = Some fp"
    and "d ''attention_mask'' = Some am" and "py_len labels = Inr n"
    and "d ''texts'' = Some gts"
  shows "validation_step bm (d, m) =
           (Inr None,
            d(''labels'' := None, ''flattened_patches'' := None, ''attention_mask'' := None,
              ''texts'' := None),
            m\<lparr>logged := logged m @
                [\<lparr>log_name = ''valid_loss'',
                  log_value = forward_loss (model m) fp am labels,
                  log_on_epoch = None,
                  log_batch_size = n\<rparr>,
                 \<lparr>log_name = ''benetech_score'',
                  log_value =
                    metric_compute bm
                      (metric_call bm (metrics m) gts
                         (batch_decode (processor m)
                            (generate (model m) (generate_kwargs_of m fp am)))),
                  log_on_epoch = Some True,
                  log_batch_size = n\<rparr>],
              generate_calls := generate_calls m @ [generate_kwargs_of m fp am],
              metrics :=
                metric_call bm (metrics m) gts
                  (batch_decode (processor m)
                     (generate (model m) (generate_kwargs_of m fp am)))\<rparr>) \<and>
         training_step bm (d, m) =
           (Inr (Some (forward_loss (model m) fp am labels)),
            d(''labels'' := None, ''flattened_patches'' := None, ''attention_mask'' := None),
            m\<lparr>logged := logged m @
                [\<lparr>log_name = ''train_loss'',
                  log_value = forward_loss (model m) fp am labels,
                  log_on_epoch = None,
                  log_batch_size = n\<rparr>]\<rparr>)"
  using shared_step_valid [OF assms, of bm m] shared_step_train [OF assms(1-4), of "''train''" bm m]
  by (simp add: validation_step_def training_step_def and_then_def return_val_def Let_def)

text \<open>
  At the demonstration batch: the validation step returns \<open>None\<close>, leaves the batch
  empty, logs the loss 7 and the score 2, records one generation call and moves the
  metric from 0 to 2; the training step returns the loss 7.
\<close>

theorem validation_step_returns_nothing_witness:
  "validation_step demo_metric (demo_batch, demo_module) =
     (Inr None,
      Map.empty,
      demo_module
        \<lparr>logged :=
           [\<lparr>log_name = ''valid_loss'', log_value = 7, log_on_epoch = None, log_batch_size = 2\<rparr>,
            \<lparr>log_name = ''benetech_score'', log_value = 2, log_on_epoch = Some True,
              log_batch_size = 2\<rparr>],
         generate_calls :=
           [\<lparr> gen_flattened_patches = TensorV (Tensor [2, 2, 2] [1, 2, 3, 4, 5, 6, 0, 0]),
              gen_attention_mask = TensorV (Tensor [2, 2] [1, 1, 1, 0]),
              max_new_tokens = 512, early_stopping = True, use_cache = True,
              gen_eos_token_id = 1, gen_pad_token_id = 0 \<rparr>],
         metrics := 2\<rparr>) \<and>
   fst (training_step demo_metric (demo_batch, demo_module)) = Inr (Some 7)"
  using validation_step_returns_nothing
    [of demo_batch "InputIds [[3, 3, 1, 0], [3, 3, 3, 1]]"
        "TensorV (Tensor [2, 2, 2] [1, 2, 3, 4, 5, 6, 0, 0])"
        "TensorV (Tensor [2, 2] [1, 1, 1, 0])" 2 "TextList [''ab'', ''abcde'']"
        demo_metric demo_module]
  by (simp add: demo_batch_def demo_module_def demo_model_def demo_metric_def
      demo_hparams_def char_processor_def generate_kwargs_of_def fun_eq_iff)

text \<open>
  C7: a validation step makes one \<open>generate\<close> call; its \<open>max_new_tokens\<close> is the
  configured \<open>max_length\<close>, \<open>early_stopping\<close> is on, and the end-of-sequence and
  padding ids are those of the processor's tokenizer. The call is made before
  \<open>texts\<close> is popped, so it does not depend on that key.
\<close>

theorem validation_step_generate_call:
  assumes "d ''labels'' = Some labels" and "d ''flattened_patches'' = Some fp"
    and "d ''attention_mask'' = Some am" and "py_len labels = Inr n"
  shows "generate_calls (snd (snd (validation_step bm (d, m)))) =
           generate_calls m @
             [\<lparr> gen_flattened_patches = fp,
                gen_attention_mask = am,
                max_new_tokens = hp_max_length (hparams m),
                early_stopping = True,
                use_cache = True,
                gen_eos_token_id = eos_token_id (processor m),
                gen_pad_token_id = pad_token_id (processor m) \<rparr>]"
proof (cases "d ''texts''")
  case None
  from shared_step_valid_no_texts [OF assms None, of bm m] show ?thesis
    by (simp add: validation_step_def and_then_def generate_kwargs_of_def)
next
  case (Some gts)
  from shared_step_valid [OF assms Some, of bm m] show ?thesis
    by (simp add: validation_step_def and_then_def return_val_def generate_kwargs_of_def Let_def)
qed

theorem validation_step_generate_call_witness:
  "generate_calls (snd (snd (validation_step demo_metric (demo_batch, demo_module)))) =
     [\<lparr> gen_flattened_patches = TensorV (Tensor [2, 2, 2] [1, 2, 3, 4, 5, 6, 0, 0]),
        gen_attention_mask = TensorV (Tensor [2, 2] [1, 1, 1, 0]),
        max_new_tokens = 512, early_stopping = True, use_cache = True,
        gen_eos_token_id = 1, gen_pad_token_id = 0 \<rparr>]"
  using validation_step_generate_call
    [of demo_batch "InputIds [[3, 3, 1, 0], [3, 3, 3, 1]]"
        "TensorV (Tensor [2, 2, 2] [1, 2, 3, 4, 5, 6, 0, 0])"
        "TensorV (Tensor [2, 2] [1, 1, 1, 0])" 2 demo_metric demo_module]
  by (simp add: demo_batch_def demo_module_def demo_hparams_def char_processor_def)

text \<open>
  C10: whenever the shared step returns, the batch it was given has lost the keys
  \<open>labels\<close>, \<open>flattened_patches\<close> and \<open>attention_mask\<close>; in the validation stage it
  has lost \<open>texts\<close> too, in any other stage \<open>texts\<close> is as it was. The batch after
  the step is never the batch before it.
\<close>

theorem shared_step_pops_keys:
  assumes "shared_step bm stage (d, m) = (Inr r, d', m')"
  shows "d' ''labels'' = None \<and> d' ''flattened_patches'' = None \<and>
         d' ''attention_mask'' = None \<and>
         (if stage = ''valid'' then d' ''texts'' = None else d' ''texts'' = d ''texts'') \<and>
         d' \<noteq> d"
proof -
  from assms have "\<exists>r. fst (shared_step bm stage (d, m)) = Inr r" by simp
  then obtain labels fp am n where keys: "d ''labels'' = Some labels"
      "d ''flattened_patches'' = Some fp" "d ''attention_mask'' = Some am"
      "py_len labels = Inr n"
    and texts: "stage = ''valid'' \<longrightarrow> (\<exists>gts. d ''texts'' = Some gts)"
    unfolding shared_step_returns_iff by blast
  have popped: "d' ''labels'' = None \<and> d' ''flattened_patches'' = None \<and>
         d' ''attention_mask'' = None \<and>
         (if stage = ''valid'' then d' ''texts'' = None else d' ''texts'' = d ''texts'')"
  proof (cases "stage = ''valid''")
    case True
    with texts obtain gts where "d ''texts'' = Some gts" by blast
    from shared_step_valid [OF keys this, of bm m] assms True
    have "d' = d(''labels'' := None, ''flattened_patches'' := None,
                 ''attention_mask'' := None, ''texts'' := None)"
      by simp
    with True show ?thesis by simp
  next
    case False
    from shared_step_train [OF keys False, of bm m] assms
    have "d' = d(''labels'' := None, ''flattened_patches'' := None, ''attention_mask'' := None)"
      by simp
    with False show ?thesis by simp
  qed
  moreover have "d' \<noteq> d"
  proof
    assume "d' = d"
    with popped have "d ''labels'' = None" by simp
    with keys(1) show False by simp
  qed
  ultimately show ?thesis by simp
qed

theorem shared_step_pops_keys_witness:
  "fst (shared_step demo_metric ''train'' (demo_batch, demo_module)) = Inr (Some 7) \<and>
   fst (snd (shared_step demo_metric ''train'' (demo_batch, demo_module))) ''labels'' = None \<and>
   fst (snd (shared_step demo_metric ''train'' (demo_batch, demo_module))) ''flattened_patches'' = None \<and>
   fst (snd (shared_step demo_metric ''train'' (demo_batch, demo_module))) ''attention_mask'' = None \<and>
   fst (snd (shared_step demo_metric ''train'' (demo_batch, demo_module))) ''texts'' =
     Some (TextList [''ab'', ''abcde'']) \<and>
   fst (snd (shared_step demo_metric ''train'' (demo_batch, demo_module))) \<noteq> demo_batch"
proof -
  obtain d' m' where run:
    "shared_step demo_metric ''train'' (demo_batch, demo_module) = (Inr (Some 7), d', m')"
    using shared_step_train
      [of demo_batch "InputIds [[3, 3, 1, 0], [3, 3, 3, 1]]"
          "TensorV (Tensor [2, 2, 2] [1, 2, 3, 4, 5, 6, 0, 0])"
          "TensorV (Tensor [2, 2] [1, 1, 1, 0])" 2 "''train''" demo_metric demo_module]
    by (simp add: demo_batch_def demo_module_def demo_model_def)
  have "demo_batch ''texts'' = Some (TextList [''ab'', ''abcde''])"
    by (simp add: demo_batch_def)
  with shared_step_pops_keys [OF run] run show ?thesis by simp
qed


section \<open>Properties of the module's life cycle\<close>

lemma keeps_and_then:
  assumes "keeps attr act" and "\<And>x. keeps attr (k x)"
  shows "keeps attr (and_then act k)"
  unfolding keeps_def
proof (intro allI)
  fix d m
  obtain r d1 m1 where run: "act (d, m) = (r, d1, m1)"
    by (cases "act (d, m)") auto
  from assms(1) have "attr (snd (snd (act (d, m)))) = attr m"
    by (simp add: keeps_def)
  with run have m1: "attr m1 = attr m" by simp
  show "attr (snd (snd (and_then act k (d, m)))) = attr m"
  proof (cases r)
    case (Inl e)
    with run m1 show ?thesis by (simp add: and_then_def)
  next
    case (Inr x)
    from assms(2) [of x] have "attr (snd (snd (k x (d1, m1)))) = attr m1"
      by (simp add: keeps_def)
    with Inr run m1 show ?thesis by (simp add: and_then_def)
  qed
qed

lemma keeps_return_val: "keeps attr (return_val x)"
  by (simp add: keeps_def return_val_def)

lemma keeps_raise: "keeps attr (raise e)"
  by (simp add: keeps_def raise_def)

lemma keeps_dict_pop: "keeps attr (dict_pop key)"
  by (simp add: keeps_def dict_pop_def split: option.split)

lemma keeps_len_of: "keeps attr (len_of v)"
  by (simp add: len_of_def keeps_raise keeps_return_val split: sum.split)

lemma keeps_model_loss: "keeps attr (model_loss fp am labels)"
  by (simp add: keeps_def model_loss_def)

lemma keeps_decode: "keeps attr (decode ids)"
  by (simp add: keeps_def decode_def)

lemma keeps_compute_metric: "keeps attr (compute_metric bm)"
  by (simp add: keeps_def compute_metric_def)

lemma keeps_self_log:
  assumes "\<And>m es. attr (m\<lparr>logged := es\<rparr>) = attr m"
  shows "keeps attr (self_log name v on_epoch n)"
  using assms by (simp add: keeps_def self_log_def)

lemma keeps_model_generate:
  assumes "\<And>m ks. attr (m\<lparr>generate_calls := ks\<rparr>) = attr m"
  shows "keeps attr (model_generate fp am)"
  using assms by (simp add: keeps_def model_generate_def Let_def)

lemma keeps_update_metric:
  assumes "\<And>m acc. attr (m\<lparr>metrics := acc\<rparr>) = attr m"
  shows "keeps attr (update_metric bm gts preds)"
  using assms by (simp add: keeps_def update_metric_def)

lemma keeps_shared_step:
  assumes "\<And>m es. attr (m\<lparr>logged := es\<rparr>) = attr m"
    and "\<And>m ks. attr (m\<lparr>generate_calls := ks\<rparr>) = attr m"
    and "\<And>m acc. attr (m\<lparr>metrics := acc\<rparr>) = attr m"
  shows "keeps attr (shared_step bm stage)"
  unfolding shared_step_def log_loss_def
  by (intro keeps_and_then keeps_dict_pop keeps_model_loss keeps_len_of keeps_self_log
      keeps_model_generate keeps_decode keeps_update_metric keeps_compute_metric
      keeps_return_val assms | simp only: if_split [of "keeps attr"] | intro conjI impI)+

lemma keeps_training_step:
  assumes "\<And>m es. attr (m\<lparr>logged := es\<rparr>) = attr m"
    and "\<And>m ks. attr (m\<lparr>generate_calls := ks\<rparr>) = attr m"
    and "\<And>m acc. attr (m\<lparr>metrics := acc\<rparr>) = attr m"
  shows "keeps attr (training_step bm)"
  unfolding training_step_def by (rule keeps_shared_step [OF assms])

lemma keeps_validation_step:
  assumes "\<And>m es. attr (m\<lparr>logged := es\<rparr>) = attr m"
    and "\<And>m ks. attr (m\<lparr>generate_calls := ks\<rparr>) = attr m"
    and "\<And>m acc. attr (m\<lparr>metrics := acc\<rparr>) = attr m"
  shows "keeps attr (validation_step bm)"
  unfolding validation_step_def
  by (intro keeps_and_then keeps_shared_step keeps_return_val assms)

lemma call_hook_outputs_empty:
  assumes "validation_step_outputs m = []"
  shows "validation_step_outputs (call_hook bm m h) = []"
proof (cases h)
  case (TrainingStep b)
  have "keeps validation_step_outputs (training_step bm)"
    by (rule keeps_training_step) simp_all
  with assms TrainingStep show ?thesis by (simp add: keeps_def)
next
  case (ValidationStep b)
  have "keeps validation_step_outputs (validation_step bm)"
    by (rule keeps_validation_step) simp_all
  with assms ValidationStep show ?thesis by (simp add: keeps_def)
next
  case OnValidationEpochEnd
  then show ?thesis by (simp add: on_validation_epoch_end_def)
next
  case OnTrainEnd
  with assms show ?thesis by (simp add: on_train_end_def)
qed

lemma call_hooks_outputs_empty:
  "validation_step_outputs m = [] \<Longrightarrow> validation_step_outputs (call_hooks bm m hs) = []"
  unfolding call_hooks_def
  by (induction hs arbitrary: m) (simp_all add: call_hook_outputs_empty)

lemma BenetechModule_init_fields:
  assumes "BenetechModule_init hp proc pretrained fresh = Inr m"
  shows "hparams m = hp" and "processor m = proc" and "validation_step_outputs m = []"
    and "metrics m = fresh" and "logged m = []" and "generate_calls m = []"
    and "saved_pretrained m = []" and "hp_model_path hp = ''google/deplot''"
    and "model m = pretrained\<lparr>is_decoder := True\<rparr>"
  using assms
  by (auto simp: BenetechModule_init_def init_model_def split: if_splits)

text \<open>
  C9: \<open>validation_step_outputs\<close> is empty in a module as constructed and after any
  sequence of training steps, validation steps and end-of-epoch or end-of-training
  hooks, whatever the batches and whether the steps raise; so
  \<open>on_validation_epoch_end\<close> leaves every such module as it finds it.
\<close>

theorem validation_step_outputs_always_empty:
  assumes "BenetechModule_init hp proc pretrained fresh = Inr m"
  shows "validation_step_outputs m = [] \<and>
         validation_step_outputs (call_hooks bm m hs) = [] \<and>
         on_validation_epoch_end (call_hooks bm m hs) = call_hooks bm m hs"
proof -
  from assms have init: "validation_step_outputs m = []"
    by (rule BenetechModule_init_fields)
  then have "validation_step_outputs (call_hooks bm m hs) = []"
    by (rule call_hooks_outputs_empty)
  with init show ?thesis by (simp add: on_validation_epoch_end_def)
qed

theorem validation_step_outputs_always_empty_witness:
  "BenetechModule_init demo_hparams char_processor demo_model 0 = Inr demo_module \<and>
   validation_step_outputs
     (call_hooks demo_metric demo_module
        [TrainingStep demo_batch, ValidationStep demo_batch, OnValidationEpochEnd,
         ValidationStep Map.empty, OnTrainEnd]) = []"
proof -
  have init: "BenetechModule_init demo_hparams char_processor demo_model 0 = Inr demo_module"
    by (simp add: BenetechModule_init_def init_model_def demo_hparams_def demo_module_def)
  from validation_step_outputs_always_empty [OF init] init show ?thesis by simp
qed


lemma call_hook_hparams: "hparams (call_hook bm m h) = hparams m"
proof (cases h)
  case (TrainingStep b)
  have "keeps hparams (training_step bm)"
    by (rule keeps_training_step) simp_all
  with TrainingStep show ?thesis by (simp add: keeps_def)
next
  case (ValidationStep b)
  have "keeps hparams (validation_step bm)"
    by (rule keeps_validation_step) simp_all
  with ValidationStep show ?thesis by (simp add: keeps_def)
next
  case OnValidationEpochEnd
  then show ?thesis by (simp add: on_validation_epoch_end_def)
next
  case OnTrainEnd
  then show ?thesis by (simp add: on_train_end_def)
qed

lemma call_hook_saved_pretrained:
  assumes "h \<noteq> OnTrainEnd"
  shows "saved_pretrained (call_hook bm m h) = saved_pretrained m"
proof (cases h)
  case (TrainingStep b)
  have "keeps saved_pretrained (training_step bm)"
    by (rule keeps_training_step) simp_all
  with TrainingStep show ?thesis by (simp add: keeps_def)
next
  case (ValidationStep b)
  have "keeps saved_pretrained (validation_step bm)"
    by (rule keeps_validation_step) simp_all
  with ValidationStep show ?thesis by (simp add: keeps_def)
next
  case OnValidationEpochEnd
  then show ?thesis by (simp add: on_validation_epoch_end_def)
next
  case OnTrainEnd
  with assms show ?thesis by simp
qed

lemma call_hooks_hparams: "hparams (call_hooks bm m hs) = hparams m"
  unfolding call_hooks_def
  by (induction hs arbitrary: m) (simp_all add: call_hook_hparams)

lemma call_hooks_saved_pretrained:
  "OnTrainEnd \<notin> set hs \<Longrightarrow> saved_pretrained (call_hooks bm m hs) = saved_pretrained m"
  unfolding call_hooks_def
  by (induction hs arbitrary: m) (auto simp: call_hook_saved_pretrained)

lemma call_hooks_snoc: "call_hooks bm m (hs @ [h]) = call_hook bm (call_hooks bm m hs) h"
  by (simp add: call_hooks_def)

lemma on_train_end_saved_pretrained:
  "saved_pretrained (on_train_end m) =
     saved_pretrained m @
       (if hp_save_model (hparams m)
        then [hp_model_save_dir (hparams m) @ format_str (hp_run_name (hparams m)) @ ''.pt'']
        else [])"
  by (simp add: on_train_end_def save_path_def)

lemma format_str_Some: "format_str (Some name) = name"
  by (simp add: format_str_def)

text \<open>
  C5: a run is a module as constructed, any hooks other than \<open>on_train_end\<close>, then
  \<open>on_train_end\<close>. After it the model has been saved exactly once, to the path
  \<open>model_save_dir\<close> followed by \<open>run_name\<close> and \<open>.pt\<close>, when \<open>save_model\<close> is true,
  and not at all when it is false. (\<open>format_str\<close> is the identity on a run name that
  is a string, see \<open>format_str_Some\<close>.)
\<close>

theorem on_train_end_saves_iff_flag:
  assumes "BenetechModule_init hp proc pretrained fresh = Inr m"
    and "OnTrainEnd \<notin> set hs"
  shows "saved_pretrained (call_hooks bm m (hs @ [OnTrainEnd])) =
           (if hp_save_model hp
            then [hp_model_save_dir hp @ format_str (hp_run_name hp) @ ''.pt'']
            else [])"
proof -
  let ?m = "call_hooks bm m hs"
  from assms(1) have "hparams m = hp" and "saved_pretrained m = []"
    by (rule BenetechModule_init_fields)+
  with assms(2) have "hparams ?m = hp" and "saved_pretrained ?m = []"
    by (simp_all add: call_hooks_hparams call_hooks_saved_pretrained)
  then show ?thesis
    by (simp add: call_hooks_snoc on_train_end_saved_pretrained)
qed

theorem on_train_end_saves_iff_flag_witness:
  "saved_pretrained
     (call_hooks demo_metric demo_module
        ([TrainingStep demo_batch, ValidationStep demo_batch, OnValidationEpochEnd] @
         [OnTrainEnd])) = [''/models/run-1.pt'']"
proof -
  have init: "BenetechModule_init demo_hparams char_processor demo_model 0 = Inr demo_module"
    by (simp add: BenetechModule_init_def init_model_def demo_hparams_def demo_module_def)
  have "OnTrainEnd \<notin> set [TrainingStep demo_batch, ValidationStep demo_batch, OnValidationEpochEnd]"
    by simp
  from on_train_end_saves_iff_flag [OF init this, of demo_metric] show ?thesis
    by (simp add: demo_hparams_def format_str_def)
qed

section \<open>Properties of the training driver\<close>

text \<open>
  With the accepted identifier the driver constructs the module and the trainer then
  loads the two splits: data loading comes after module construction.
\<close>

lemma train_loads_data_after_module:
  assumes "model_path cfg = ''google/deplot''"
  shows "train cfg proc logger pretrained fresh =
     (Inr (),
      [SeedEverything (seed cfg), ProcessorFromPretrained (processor_path cfg),
       LoadLoggerAndCallbacks, ModelFromPretrained ''google/deplot'',
       LoadDataset (data_dir cfg) ''train'', LoadDataset (data_dir cfg) ''validation'',
       TrainerFitLoop])"
  using assms
  by (simp add: train_def BenetechDataModule_init_def BenetechModule_init_def init_model_def
      setup_stage_def dataset_of_def Let_def)

text \<open>
  C4: for every model path other than \<open>google/deplot\<close>, constructing the module
  yields the \<open>ValueError\<close> of \<open>_init_model\<close>, and \<open>train\<close> ends with that error
  without a single \<open>load_dataset\<close> call among the events before it.
\<close>

theorem unsupported_model_raises_before_data_loading:
  assumes "p \<noteq> ''google/deplot''"
  shows "BenetechModule_init (hp\<lparr>hp_model_path := p\<rparr>) proc pretrained fresh =
           Inl (ValueError (p @ '' is not a valid model'')) \<and>
         (\<exists>evs. train (cfg\<lparr>model_path := p\<rparr>) proc logger pretrained fresh =
                  (Inl (ValueError (p @ '' is not a valid model'')), evs) \<and>
                filter is_data_loading evs = [])"
  using assms
  by (simp add: train_def BenetechDataModule_init_def BenetechModule_init_def init_model_def
      Let_def)

theorem unsupported_model_raises_before_data_loading_witness:
  "BenetechModule_init (demo_hparams\<lparr>hp_model_path := ''google/pix2struct-base''\<rparr>)
     char_processor demo_model (0::nat) =
     Inl (ValueError ''google/pix2struct-base is not a valid model'') \<and>
   train (default_config\<lparr>model_path := ''google/pix2struct-base''\<rparr>)
     char_processor (Some ''run-1'') demo_model (0::nat) =
     (Inl (ValueError ''google/pix2struct-base is not a valid model''),
      [SeedEverything 0, ProcessorFromPretrained ''google/deplot'', LoadLoggerAndCallbacks])"
  using unsupported_model_raises_before_data_loading
    [of "''google/pix2struct-base''" demo_hparams char_processor demo_model "0::nat"
        default_config "Some ''run-1''"]
  by (auto simp: train_def BenetechDataModule_init_def BenetechModule_init_def init_model_def
      Let_def default_config_def)

section \<open>Properties of the command line\<close>

text \<open>
  What an unset flag becomes: \<open>seed\<close>, \<open>batch_size\<close> and
  \<open>accumulate_grad_batches\<close> keep the configuration's value, \<open>fast_dev_run\<close> becomes
  \<open>False\<close>, and \<open>max_patches\<close> becomes the configuration's \<open>batch_size\<close>.
\<close>

lemma parse_args_unset:
  "seed (parse_args cfg (c\<lparr>cli_seed := None\<rparr>)) = seed cfg"
  "batch_size (parse_args cfg (c\<lparr>cli_batch_size := None\<rparr>)) = batch_size cfg"
  "accumulate_grad_batches (parse_args cfg (c\<lparr>cli_accumulate_grad_batches := None\<rparr>)) =
     accumulate_grad_batches cfg"
  "fast_dev_run (parse_args cfg (c\<lparr>cli_fast_dev_run := False\<rparr>)) = False"
  "max_patches (parse_args cfg (c\<lparr>cli_max_patches := None\<rparr>)) = batch_size cfg"
  by (simp_all add: parse_args_def argparse_namespace_def)

text \<open>
  C2 says that an unset \<open>--max_patches\<close> yields the configuration's \<open>max_patches\<close>.
  With the defaults of \<open>main.py\<close> and no flag given, the configuration's
  \<open>max_patches\<close> is 1024 and \<open>parse_args\<close> returns 3, the batch size.
\<close>

theorem parse_args_unset_max_patches:
  "max_patches default_config = 1024 \<and>
   batch_size default_config = 3 \<and>
   max_patches (parse_args default_config no_flags) = 3"
  by (simp add: parse_args_def argparse_namespace_def default_config_def no_flags_def)

end
